theory Spec2Isabelle
  imports Main "HOL-Library.Word" "HOL-Library.Signed_Division"
begin

section \<open>The chain plugin of evt: a shallow embedding\<close>

text \<open>
  The development follows \<^verbatim>\<open>plugins/chain_plugin/chain_plugin.cpp\<close>. Every C++ exception
  is a value of \<open>exn\<close>. Collaborators whose
  code lives outside the file (the fc library, chainbase, the controller, the bound
  transaction-sync provider) enter as parameters, grouped in records of functions.
\<close>

subsection \<open>Exceptions and outcomes\<close>

text \<open>
  The exception classes the plugin tells apart in its \<^verbatim>\<open>catch\<close> clauses:
  \<^verbatim>\<open>std::runtime_error\<close>, \<^verbatim>\<open>boost::interprocess::bad_alloc\<close>, the \<^verbatim>\<open>fc::exception\<close> family
  (with the class of the exception and its detail string), and everything else. Of the
  last, \<^verbatim>\<open>std::bad_alloc\<close> is named: it is the exception of an allocation on the heap
  that fails, and no \<^verbatim>\<open>catch\<close> clause of the file mentions it.
\<close>

datatype fc_type =
    Assert_exception
  | Block_id_type_exception
  | Unknown_block_exception
  | Packed_transaction_type_exception
  | Fixed_reversible_db_exception
  | Bad_cast_exception
  | Other_fc_exception

datatype exn =
    Std_runtime_error string
  | Interprocess_bad_alloc
  | Std_bad_alloc
  | Fc_exception fc_type string
  | Other_exception string

fun is_runtime_error :: "exn \<Rightarrow> bool" where
  "is_runtime_error (Std_runtime_error _) = True"
| "is_runtime_error _ = False"

fun is_fc_exception :: "exn \<Rightarrow> bool" where
  "is_fc_exception (Fc_exception _ _) = True"
| "is_fc_exception _ = False"

fun to_detail_string :: "exn \<Rightarrow> string" where
  "to_detail_string (Fc_exception _ d) = d"
| "to_detail_string (Std_runtime_error d) = d"
| "to_detail_string (Other_exception d) = d"
| "to_detail_string Interprocess_bad_alloc = []"
| "to_detail_string Std_bad_alloc = []"

text \<open>
  A call that can throw has a result of type \<open>exn + 'a\<close>: \<open>Inl x\<close> when \<open>x\<close> is thrown,
  \<open>Inr v\<close> when \<open>v\<close> is returned. Two functions of the file are declared with a result
  and have no \<^verbatim>\<open>return\<close> statement; a call of those ends in one of three ways.
\<close>

datatype 'a ending = Returned 'a | Thrown exn | No_return_statement

text \<open>\<^verbatim>\<open>FC_ASSERT(cond, msg)\<close> throws \<^verbatim>\<open>fc::assert_exception\<close> carrying the message.\<close>

definition FC_ASSERT :: "bool \<Rightarrow> string \<Rightarrow> exn option" where
  "FC_ASSERT cond msg = (if cond then None else Some (Fc_exception Assert_exception msg))"

text \<open>
  The two exceptions of memory exhaustion: of the shared memory segment of a database,
  and of the heap.
\<close>

definition is_memory_exhaustion :: "exn \<Rightarrow> bool" where
  "is_memory_exhaustion x = (x = Interprocess_bad_alloc \<or> x = Std_bad_alloc)"

subsection \<open>Directories and chainbase databases\<close>

text \<open>
  A path is the list of its components. A directory either holds no database file yet,
  or a database that is clean, dirty, or broken in a way that makes every open throw.
  The rows of the reversible block index are kept in creation order (the \<^verbatim>\<open>by_id\<close>
  index); the \<^verbatim>\<open>by_num\<close> index yields them in ascending block number.
\<close>

type_synonym path = "string list"
type_synonym payload = "8 word list"
type_synonym row = "32 word \<times> payload"

datatype health = Uninitialised | Clean | Dirty | Broken exn

record database =
  health :: health
  rows :: "row list"

datatype log_entry =
    Moved_to_backup path
  | Reconstructing path
  | No_recoverable_blocks
  | Recovered_one "32 word"
  | Recovered_many "32 word" "32 word" "32 word"

record world =
  dirs :: "path \<rightharpoonup> database"
  now :: string
  ilog :: "log_entry list"

text \<open>
  The collaborators of \<^verbatim>\<open>recover_reversible_blocks\<close>: \<^verbatim>\<open>fc::canonical\<close>; the exception
  chainbase throws when asked to open, read-only, a directory with no database file; the
  exception, if any, that \<^verbatim>\<open>create<reversible_block_object>\<close> throws for a row (from
  \<^verbatim>\<open>get_block\<close>, \<^verbatim>\<open>set_block\<close> or the allocation in the store); and the payload that
  \<^verbatim>\<open>set_block(get_block())\<close> stores when nothing is thrown.
\<close>

record env =
  canonical :: "path \<Rightarrow> exn + path"
  missing_fault :: exn
  create_fault :: "database \<Rightarrow> row \<Rightarrow> exn option"
  reencode :: "payload \<Rightarrow> payload"

definition filename :: "path \<Rightarrow> string" where
  "filename p = (if p = [] then [] else last p)"

definition parent_path :: "path \<Rightarrow> path" where
  "parent_path p = butlast p"

definition exists_path :: "world \<Rightarrow> path \<Rightarrow> bool" where
  "exists_path w p = (dirs w p \<noteq> None)"

text \<open>\<^verbatim>\<open>fc::rename\<close> moves a directory that exists and throws when there is none.\<close>

definition rename_path :: "path \<Rightarrow> path \<Rightarrow> world \<Rightarrow> exn + world" where
  "rename_path src dst w =
     (if exists_path w src
      then Inr (w\<lparr>dirs := (dirs w)(src := None, dst := dirs w src)\<rparr>)
      else Inl (Fc_exception Other_fc_exception ''rename: no such directory''))"

definition create_directories :: "path \<Rightarrow> world \<Rightarrow> world" where
  "create_directories p w =
     (if exists_path w p then w
      else w\<lparr>dirs := (dirs w)(p \<mapsto> \<lparr>health = Uninitialised, rows = []\<rparr>)\<rparr>)"

datatype open_flags = Read_only | Read_write

text \<open>
  The constructor \<^verbatim>\<open>chainbase::database(dir, flags, size, allow_dirty)\<close>: the database it
  gives access to, or the exception it throws. Opening read-write creates the database
  file where there is none.
\<close>

definition open_database :: "env \<Rightarrow> world \<Rightarrow> path \<Rightarrow> open_flags \<Rightarrow> bool \<Rightarrow> exn + database" where
  "open_database e w p flags allow_dirty =
     (case dirs w p of
        None \<Rightarrow>
          (case flags of
             Read_only \<Rightarrow> Inl (missing_fault e)
           | Read_write \<Rightarrow> Inr \<lparr>health = Clean, rows = []\<rparr>)
      | Some d \<Rightarrow>
          (case health d of
             Uninitialised \<Rightarrow>
               (case flags of
                  Read_only \<Rightarrow> Inl (missing_fault e)
                | Read_write \<Rightarrow> Inr \<lparr>health = Clean, rows = []\<rparr>)
           | Clean \<Rightarrow> Inr d
           | Dirty \<Rightarrow>
               (if allow_dirty then Inr d
                else Inl (Std_runtime_error ''database dirty flag set''))
           | Broken x \<Rightarrow> Inl x))"

definition by_num :: "database \<Rightarrow> row list" where
  "by_num d = sort_key fst (rows d)"

text \<open>
  \<^verbatim>\<open>new_reversible.create<reversible_block_object>\<close> with the lambda of lines 395 to 398:
  the new row has the block number of the old one and the payload decoded and encoded
  again. When the lambda throws, no row is added.
\<close>

definition stored :: "env \<Rightarrow> row \<Rightarrow> row" where
  "stored e r = (fst r, reencode e (snd r))"

definition create :: "env \<Rightarrow> database \<Rightarrow> row \<Rightarrow> exn + database" where
  "create e d r =
     (case create_fault e d r of
        Some x \<Rightarrow> Inl x
      | None \<Rightarrow> Inr (d\<lparr>rows := rows d @ [stored e r]\<rparr>))"

subsection \<open>recover_reversible_blocks\<close>

text \<open>
  The loop of lines 393 to 401 over the rows the \<^verbatim>\<open>by_num\<close> iterator still has to visit.
  The state is the live database and the counters \<open>num\<close> and \<open>end\<close>; the first component
  of the result is the exception that left the loop, if one did.
\<close>

fun copy_rows :: "env \<Rightarrow> row list \<Rightarrow> database \<Rightarrow> 32 word \<Rightarrow> 32 word
    \<Rightarrow> exn option \<times> database \<times> 32 word \<times> 32 word" where
  "copy_rows e [] d num end = (None, d, num, end)"
| "copy_rows e (r # rs) d num end =
     (case FC_ASSERT (fst r = end + 1) ''gap in reversible block database'' of
        Some x \<Rightarrow> (Some x, d, num, end)
      | None \<Rightarrow>
          (case create e d r of
             Inl x \<Rightarrow> (Some x, d, num, end)
           | Inr d' \<Rightarrow> copy_rows e rs d' (num + 1) (fst r)))"

text \<open>
  Lines 381 to 404: the counters start at 0; with a first row, \<open>start\<close> is its block number
  and \<open>end\<close> is \<open>start - 1\<close> (unsigned 32-bit arithmetic). The \<^verbatim>\<open>catch(...)\<close> with the
  empty body swallows whatever exception left the loop; it is returned here for
  inspection only.
\<close>

definition copy_all :: "env \<Rightarrow> database \<Rightarrow> database
    \<Rightarrow> exn option \<times> database \<times> 32 word \<times> 32 word \<times> 32 word" where
  "copy_all e old new =
     (let ubi = by_num old;
          start = (case ubi of [] \<Rightarrow> 0 | r # _ \<Rightarrow> fst r);
          end0 = (case ubi of [] \<Rightarrow> 0 | r # _ \<Rightarrow> fst r - 1)
      in case copy_rows e ubi new 0 end0 of
           (x, d, num, end) \<Rightarrow> (x, d, num, start, end))"

definition summary :: "32 word \<Rightarrow> 32 word \<Rightarrow> 32 word \<Rightarrow> log_entry" where
  "summary num start end =
     (if num = 0 then No_recoverable_blocks
      else if num = 1 then Recovered_one start
      else Recovered_many num start end)"

text \<open>
  Lines 349 to 372: where the backup and the live directory are. With \<open>new_db_dir\<close> the
  dirty directory is the backup and \<open>new_db_dir\<close> becomes the live one; without it the
  dirty directory is renamed to its name followed by \<^verbatim>\<open>-\<close> and the current time, unless
  that name is taken.
\<close>

definition locate :: "env \<Rightarrow> path \<Rightarrow> path option \<Rightarrow> world \<Rightarrow> exn + (path \<times> path \<times> world)" where
  "locate e db_dir new_db_dir w =
     (case canonical e db_dir of
        Inl x \<Rightarrow> Inl x
      | Inr c \<Rightarrow>
          (let reversible_dir = (if filename c = ''.'' then parent_path c else c)
           in case new_db_dir of
                Some nd \<Rightarrow> Inr (reversible_dir, nd, w)
              | None \<Rightarrow>
                  (let reversible_dir_name = filename reversible_dir
                   in case FC_ASSERT (reversible_dir_name \<noteq> ''.'')
                             ''Invalid path to reversible directory'' of
                        Some x \<Rightarrow> Inl x
                      | None \<Rightarrow>
                          (let backup_dir = parent_path reversible_dir
                                 @ [reversible_dir_name @ ''-'' @ now w]
                           in case FC_ASSERT (\<not> exists_path w backup_dir)
                                     ''Cannot move existing reversible directory to already existing directory'' of
                                Some x \<Rightarrow> Inl x
                              | None \<Rightarrow>
                                  (case rename_path reversible_dir backup_dir w of
                                     Inl x \<Rightarrow> Inl x
                                   | Inr w1 \<Rightarrow>
                                       Inr (backup_dir, reversible_dir,
                                            w1\<lparr>ilog := ilog w @ [Moved_to_backup backup_dir]\<rparr>))))))"

text \<open>
  Lines 349 to 379: the directories are located, the live directory is created, the
  backup is opened read-only with \<open>allow_dirty\<close>, the live store read-write. An exception
  here leaves the function; it comes with the world as it is at that point.
\<close>

definition prepare :: "env \<Rightarrow> path \<Rightarrow> path option \<Rightarrow> world
    \<Rightarrow> (exn \<times> world) + (world \<times> path \<times> database \<times> database)" where
  "prepare e db_dir new_db_dir w =
     (case locate e db_dir new_db_dir w of
        Inl x \<Rightarrow> Inl (x, w)
      | Inr (backup_dir, reversible_dir, w1) \<Rightarrow>
          (let w2 = (create_directories reversible_dir w1)
                      \<lparr>ilog := ilog w1 @ [Reconstructing reversible_dir]\<rparr>
           in case open_database e w2 backup_dir Read_only True of
                Inl x \<Rightarrow> Inl (x, w2)
              | Inr old_reversible \<Rightarrow>
                  (case open_database e w2 reversible_dir Read_write False of
                     Inl x \<Rightarrow> Inl (x, w2)
                   | Inr new_reversible \<Rightarrow>
                       Inr (w2, reversible_dir, old_reversible, new_reversible))))"

text \<open>
  The whole function. The first component of the result is what the caller sees, the
  second the world the call leaves behind. The parameter \<open>cache_size\<close> only sizes the
  live database; running out of it shows as a \<open>create_fault\<close>.
\<close>

definition recover_reversible_blocks ::
    "env \<Rightarrow> path \<Rightarrow> 32 word \<Rightarrow> path option \<Rightarrow> world \<Rightarrow> (exn + bool) \<times> world" where
  "recover_reversible_blocks e db_dir cache_size new_db_dir w =
     (case open_database e w db_dir Read_only False of
        Inr _ \<Rightarrow> (Inr False, w)
      | Inl x \<Rightarrow>
          if \<not> is_runtime_error x then (Inl x, w)
          else
            (case prepare e db_dir new_db_dir w of
               Inl (x, w') \<Rightarrow> (Inl x, w')
             | Inr (w2, reversible_dir, old_reversible, new_reversible) \<Rightarrow>
                 (case copy_all e old_reversible new_reversible of
                    (_, d, num, start, end) \<Rightarrow>
                      (Inr True,
                       w2\<lparr>dirs := (dirs w2)(reversible_dir \<mapsto> d),
                          ilog := ilog w2 @ [summary num start end]\<rparr>))))"

text \<open>
  The words of the spec on the heights \<open>hs\<close> of the backup records in ascending order:
  there is a gap when some height is not its predecessor plus one, and the records
  before the first gap are the longest gap-free prefix.
\<close>

fun has_gap :: "32 word list \<Rightarrow> bool" where
  "has_gap (x # y # hs) = (y \<noteq> x + 1 \<or> has_gap (y # hs))"
| "has_gap _ = False"

fun gap_free_prefix :: "32 word list \<Rightarrow> 32 word list" where
  "gap_free_prefix (x # y # hs) = (if y = x + 1 then x # gap_free_prefix (y # hs) else [x])"
| "gap_free_prefix hs = hs"

text \<open>
  Row \<open>i\<close> of the backup fails when the loop has copied the \<open>i\<close> rows before it: its height
  is not \<open>end + 1\<close>, where \<open>end\<close> is the height of the row before it (for the first row,
  the value \<open>end\<close> has on entry), or the creation of the row in the live store throws.
\<close>

definition row_fails_from :: "env \<Rightarrow> database \<Rightarrow> 32 word \<Rightarrow> row list \<Rightarrow> nat \<Rightarrow> bool" where
  "row_fails_from e d end rs i =
     (fst (rs ! i) \<noteq> (if i = 0 then end else fst (rs ! (i - 1))) + 1
      \<or> create_fault e (d\<lparr>rows := rows d @ map (stored e) (take i rs)\<rparr>) (rs ! i) \<noteq> None)"

definition row_fails :: "env \<Rightarrow> database \<Rightarrow> row list \<Rightarrow> nat \<Rightarrow> bool" where
  "row_fails e d rs i =
     ((0 < i \<and> fst (rs ! i) \<noteq> fst (rs ! (i - 1)) + 1)
      \<or> create_fault e (d\<lparr>rows := rows d @ map (stored e) (take i rs)\<rparr>) (rs ! i) \<noteq> None)"

text \<open>Example data: a store directory, an environment in which nothing fails, worlds.\<close>

definition example_dir :: path where
  "example_dir = [''data'', ''blocks'', ''reversible'']"

definition example_backup_dir :: path where
  "example_backup_dir = [''data'', ''blocks'', ''reversible-2018-06-01T00:00:00'']"

definition example_env :: env where
  "example_env = \<lparr>canonical = Inr,
     missing_fault = Std_runtime_error ''database file not found'',
     create_fault = (\<lambda>d r. None),
     reencode = (\<lambda>p. p)\<rparr>"

definition world_with :: "(path \<times> database) list \<Rightarrow> world" where
  "world_with ds = \<lparr>dirs = map_of ds, now = ''2018-06-01T00:00:00'', ilog = []\<rparr>"

definition clean_world :: world where
  "clean_world = world_with
     [(example_dir, \<lparr>health = Clean, rows = [(5, [1]), (6, [2]), (7, [3])]\<rparr>)]"

definition broken_world :: world where
  "broken_world = world_with
     [(example_dir, \<lparr>health = Broken (Other_exception ''permission denied''), rows = []\<rparr>)]"

definition gap_world :: world where
  "gap_world = world_with
     [(example_dir, \<lparr>health = Dirty, rows = [(5, [1]), (7, [3])]\<rparr>)]"

definition decode_fault_env :: env where
  "decode_fault_env = example_env\<lparr>create_fault := (\<lambda>d r.
     if snd r = [255] then Some (Fc_exception Other_fc_exception ''malformed block'')
     else None)\<rparr>"

definition fault_gap_world :: world where
  "fault_gap_world = world_with
     [(example_dir, \<lparr>health = Dirty, rows = [(5, [255]), (7, [3])]\<rparr>)]"

definition dirty_world :: world where
  "dirty_world = world_with
     [(example_dir, \<lparr>health = Dirty, rows = [(7, [3]), (5, [1]), (6, [2])]\<rparr>)]"

definition taken_world :: world where
  "taken_world = world_with
     [(example_dir, \<lparr>health = Dirty, rows = [(5, [1]), (6, [2]), (7, [3])]\<rparr>),
      (example_backup_dir, \<lparr>health = Clean, rows = [(1, [9])]\<rparr>)]"

subsection \<open>The plugin object and its life cycle\<close>

text \<open>
  Of \<^verbatim>\<open>chain_plugin_impl\<close> the model keeps the optional controller and the six optional
  scoped connections, as the set of the signals that have one.
\<close>

datatype signal_kind =
    Accepted_block_header
  | Accepted_block
  | Irreversible_block
  | Accepted_transaction
  | Applied_transaction
  | Accepted_confirmation

record controller =
  started_up :: bool

record chain_plugin_impl =
  chain :: "controller option"
  connections :: "signal_kind set"

definition all_signals :: "signal_kind set" where
  "all_signals = {Accepted_block_header, Accepted_block, Irreversible_block,
     Accepted_transaction, Applied_transaction, Accepted_confirmation}"

text \<open>
  \<^verbatim>\<open>plugin_initialize\<close>. Lines 120 to 234 (options, maintenance actions, genesis file)
  enter through \<open>options_fault\<close>, the exception they throw, if any; \<open>construct\<close> is what the
  constructor of the controller does at line 236. Lines 256 to 278 connect the six signals.
\<close>

definition plugin_initialize :: "exn option \<Rightarrow> exn + controller \<Rightarrow> chain_plugin_impl
    \<Rightarrow> exn + chain_plugin_impl" where
  "plugin_initialize options_fault construct my =
     (case options_fault of
        Some x \<Rightarrow> Inl x
      | None \<Rightarrow>
          (case construct of
             Inl x \<Rightarrow> Inl x
           | Inr c \<Rightarrow> Inr (my\<lparr>chain := Some c, connections := all_signals\<rparr>)))"

text \<open>
  \<^verbatim>\<open>plugin_startup\<close>: \<open>fault\<close> is what \<^verbatim>\<open>my->chain->startup()\<close> throws, if anything;
  \<^verbatim>\<open>FC_CAPTURE_LOG_AND_RETHROW\<close> throws it on. Without a controller the dereference of the
  empty optional fails.
\<close>

definition plugin_startup :: "exn option \<Rightarrow> chain_plugin_impl \<Rightarrow> exn + chain_plugin_impl" where
  "plugin_startup fault my =
     (case chain my of
        None \<Rightarrow> Inl (Other_exception ''dereference of an empty optional'')
      | Some c \<Rightarrow>
          (case fault of
             Some x \<Rightarrow> Inl x
           | None \<Rightarrow> Inr (my\<lparr>chain := Some (c\<lparr>started_up := True\<rparr>)\<rparr>)))"

definition plugin_shutdown :: "chain_plugin_impl \<Rightarrow> chain_plugin_impl" where
  "plugin_shutdown my = my\<lparr>connections := {}, chain := None\<rparr>"

text \<open>
  Modelled from the spec: the life-cycle state of the plugin and the driver that decides
  which of \<^verbatim>\<open>plugin_initialize\<close>, \<^verbatim>\<open>plugin_startup\<close> and \<^verbatim>\<open>plugin_shutdown\<close> runs in
  which state belong to the application framework, which is not among the sources. The
  spec (4.3) has the states Unconfigured, Configured, Started and Stopped; configure
  moves to Configured, start is valid from Configured only and moves to Started, stop
  releases everything and moves to Stopped, and is a no-op from Configured or Stopped.
  \<open>Starting\<close> is the state of a start whose controller startup has not completed. A
  configure that throws leaves the state as it is.
\<close>

datatype lifecycle = Unconfigured | Configured | Starting | Started | Stopped

text \<open>
  Modelled from the spec: the operations of the life cycle (4.3). Configure and start
  come with what the collaborators of the plugin functions do in that call.
\<close>

datatype event =
    Configure "exn option" "exn + controller"
  | Start "exn option"
  | Stop

text \<open>
  Modelled from the spec: the node process has one life-cycle state and one plugin
  object; it begins Unconfigured, with no controller and no connection.
\<close>

record plugin =
  state :: lifecycle
  my :: chain_plugin_impl

definition initial_plugin :: plugin where
  "initial_plugin = \<lparr>state = Unconfigured, my = \<lparr>chain = None, connections = {}\<rparr>\<rparr>"

text \<open>
  Modelled from the spec: one operation of the life cycle (4.3). The three plugin
  functions it runs are those of the source above. An operation that is not valid in the
  current state changes nothing; a start whose controller startup throws stays Starting.
\<close>

fun step :: "plugin \<Rightarrow> event \<Rightarrow> plugin" where
  "step p (Configure options_fault construct) =
     (if state p = Unconfigured then
        (case plugin_initialize options_fault construct (my p) of
           Inl x \<Rightarrow> p
         | Inr m \<Rightarrow> \<lparr>state = Configured, my = m\<rparr>)
      else p)"
| "step p (Start fault) =
     (if state p = Configured then
        (case plugin_startup fault (my p) of
           Inl x \<Rightarrow> p\<lparr>state := Starting\<rparr>
         | Inr m \<Rightarrow> \<lparr>state = Started, my = m\<rparr>)
      else p)"
| "step p Stop =
     (if state p = Started \<or> state p = Starting then
        \<lparr>state = Stopped, my = plugin_shutdown (my p)\<rparr>
      else p)"

text \<open>
  Modelled from the spec: the reachable states are those a sequence of operations leads
  to from the initial one.
\<close>

definition run :: "event list \<Rightarrow> plugin" where
  "run evs = foldl step initial_plugin evs"

text \<open>
  What holds of the plugin in every state the life cycle reaches: the controller exists
  exactly from Configured to Started, and all six connections exist exactly when it does.
\<close>

definition lifecycle_invariant :: "plugin \<Rightarrow> bool" where
  "lifecycle_invariant p =
     ((chain (my p) \<noteq> None) = (state p = Configured \<or> state p = Starting \<or> state p = Started)
      \<and> connections (my p) = (if chain (my p) = None then {} else all_signals))"

subsection \<open>The genesis timestamp\<close>

text \<open>
  Lines 129 to 144. \<^verbatim>\<open>strcasecmp(tstr, "now") == 0\<close> compares without regard to case.
  Times are microseconds since the epoch, 64-bit signed in the source; the division and
  the remainder of C++ truncate towards zero. \<open>block_interval_ms\<close> is a constant of
  \<^verbatim>\<open>config.hpp\<close>, a parameter here; \<open>from_iso_string\<close> belongs to fc.
\<close>

definition tolower :: "char \<Rightarrow> char" where
  "tolower c =
     (if (65::nat) \<le> of_char c \<and> of_char c \<le> (90::nat)
      then char_of (of_char c + (32::nat)) else c)"

definition strcasecmp_eq :: "string \<Rightarrow> string \<Rightarrow> bool" where
  "strcasecmp_eq a b = (map tolower a = map tolower b)"

definition snap_now :: "int \<Rightarrow> int \<Rightarrow> int" where
  "snap_now block_interval_ms now_us =
     (let epoch_ms = now_us sdiv 1000;
          diff_ms = epoch_ms smod block_interval_ms
      in if diff_ms > 0
         then (let delay_ms = block_interval_ms - diff_ms
               in now_us + delay_ms * 10000)
         else now_us)"

definition genesis_timestamp_option ::
    "int \<Rightarrow> (string \<Rightarrow> exn + int) \<Rightarrow> int \<Rightarrow> string \<Rightarrow> exn + int" where
  "genesis_timestamp_option block_interval_ms from_iso_string now_us tstr =
     (if strcasecmp_eq tstr ''now'' then Inr (snap_now block_interval_ms now_us)
      else from_iso_string tstr)"

text \<open>
  Lines 232 to 234: the override replaces the timestamp of the genesis file when its
  seconds since the epoch, an unsigned 32-bit number, are positive.
\<close>

definition initial_timestamp :: "int \<Rightarrow> int \<Rightarrow> int" where
  "initial_timestamp genesis_timestamp from_file =
     (if (genesis_timestamp sdiv 1000000) mod 2 ^ 32 > 0 then genesis_timestamp else from_file)"

subsection \<open>The read-only and read-write API\<close>

type_synonym block_id_type = "64 word \<times> 64 word \<times> 64 word \<times> 64 word"
type_synonym transaction_id_type = "256 word"
type_synonym packed_transaction = "8 word list"

text \<open>
  Of \<^verbatim>\<open>fc::variant\<close>: null, strings, unsigned numbers, block ids, and objects, which are
  lists of named fields.
\<close>

datatype variant =
    Null_variant
  | String_variant string
  | Uint_variant nat
  | Block_id_variant block_id_type
  | Object_variant "(string \<times> variant) list"

record signed_block =
  block_id :: block_id_type
  block_num :: "32 word"

record transaction_trace =
  trace_id :: transaction_id_type
  elapsed :: nat

record push_transaction_results =
  transaction_id :: transaction_id_type
  processed :: variant

datatype signal = SIGUSR1

text \<open>
  What the API calls observably do besides returning: the signals the process raised
  on itself, and the calls made to the bound transaction-sync method, each with the flag
  it was given.
\<close>

record node =
  signals :: "signal list"
  sync_calls :: "(packed_transaction \<times> bool) list"

text \<open>
  The collaborators: the allocation of \<^verbatim>\<open>std::make_shared<signed_block>\<close> (the exception
  it throws, if any), the controller (\<open>db\<close>), the ABI serializer, fc's parsers, and the
  provider bound to \<^verbatim>\<open>incoming::methods::transaction_sync\<close>.
\<close>

record collaborators =
  make_shared_block :: "signed_block \<Rightarrow> exn option"
  controller_push_block :: "signed_block \<Rightarrow> exn option"
  fetch_block_by_id :: "block_id_type \<Rightarrow> signed_block option"
  fetch_block_by_number :: "32 word \<Rightarrow> signed_block option"
  parse_block_id :: "string \<Rightarrow> exn + block_id_type"
  to_uint64 :: "string \<Rightarrow> exn + 64 word"
  block_to_variant :: "signed_block \<Rightarrow> exn + variant"
  from_variant :: "variant \<Rightarrow> exn + packed_transaction"
  transaction_sync :: "packed_transaction \<Rightarrow> bool \<Rightarrow> exn + transaction_trace"
  to_variant_with_abi :: "transaction_trace \<Rightarrow> exn + variant"

text \<open>
  Modelled from the spec: the macro \<^verbatim>\<open>EVT_RETHROW_EXCEPTIONS\<close> is defined in
  \<^verbatim>\<open>evt/chain/exceptions.hpp\<close>, which is not among the sources. As the spec has it (4.6),
  a failure inside the guarded block is reported as an error of the class the macro
  names, with the message the macro is given.
\<close>

definition EVT_RETHROW_EXCEPTIONS :: "fc_type \<Rightarrow> string \<Rightarrow> exn \<Rightarrow> exn" where
  "EVT_RETHROW_EXCEPTIONS ty msg x = Fc_exception ty msg"

definition raise_signal :: "signal \<Rightarrow> node \<Rightarrow> node" where
  "raise_signal sg n = n\<lparr>signals := signals n @ [sg]\<rparr>"

definition call_transaction_sync ::
    "collaborators \<Rightarrow> packed_transaction \<Rightarrow> bool \<Rightarrow> node \<Rightarrow> (exn + transaction_trace) \<times> node" where
  "call_transaction_sync c trx flag n =
     (transaction_sync c trx flag, n\<lparr>sync_calls := sync_calls n @ [(trx, flag)]\<rparr>)"

text \<open>\<^verbatim>\<open>chain_plugin::accept_transaction\<close>, lines 325 to 328.\<close>

definition accept_transaction ::
    "collaborators \<Rightarrow> packed_transaction \<Rightarrow> node \<Rightarrow> (exn + transaction_trace) \<times> node" where
  "accept_transaction c trx n = call_transaction_sync c trx False n"

text \<open>
  \<^verbatim>\<open>read_only::get_block\<close>, lines 467 to 486. The block number handed to
  \<^verbatim>\<open>fetch_block_by_number\<close> is the 64-bit result of \<^verbatim>\<open>fc::to_uint64\<close> converted to 32 bits;
  \<open>ref_block_prefix\<close> is the second 64-bit word of the id converted to 32 bits. Line 485
  takes the rendering of the block as an object, which throws when it is none, and sets
  three fields in it: a field that is there gets the new value, another is appended.
\<close>

fun set_field :: "string \<Rightarrow> variant \<Rightarrow> (string \<times> variant) list \<Rightarrow> (string \<times> variant) list" where
  "set_field key v [] = [(key, v)]"
| "set_field key v (f # fs) = (if fst f = key then (key, v) # fs else f # set_field key v fs)"

definition get_object :: "variant \<Rightarrow> exn + (string \<times> variant) list" where
  "get_object v =
     (case v of
        Object_variant fs \<Rightarrow> Inr fs
      | _ \<Rightarrow> Inl (Fc_exception Bad_cast_exception ''Invalid cast to Object''))"

definition lookup_block :: "collaborators \<Rightarrow> string \<Rightarrow> exn + signed_block option" where
  "lookup_block c block_num_or_id =
     (case parse_block_id c block_num_or_id of
        Inl x \<Rightarrow> Inl x
      | Inr i \<Rightarrow>
          (case fetch_block_by_id c i of
             Some b \<Rightarrow> Inr (Some b)
           | None \<Rightarrow>
               (case to_uint64 c block_num_or_id of
                  Inl x \<Rightarrow> Inl x
                | Inr k \<Rightarrow> Inr (fetch_block_by_number c (ucast k)))))"

definition block_result :: "signed_block \<Rightarrow> (string \<times> variant) list \<Rightarrow> variant" where
  "block_result b fs =
     (let ref_block_prefix = (ucast (fst (snd (block_id b))) :: 32 word)
      in Object_variant
           (set_field ''ref_block_prefix'' (Uint_variant (unat ref_block_prefix))
             (set_field ''block_num'' (Uint_variant (unat (block_num b)))
               (set_field ''id'' (Block_id_variant (block_id b)) fs))))"

definition get_block :: "collaborators \<Rightarrow> string \<Rightarrow> exn + variant" where
  "get_block c block_num_or_id =
     (case lookup_block c block_num_or_id of
        Inl x \<Rightarrow>
          Inl (EVT_RETHROW_EXCEPTIONS Block_id_type_exception
                 (''Invalid block ID: '' @ block_num_or_id) x)
      | Inr None \<Rightarrow>
          Inl (Fc_exception Unknown_block_exception
                 (''Could not find block: '' @ block_num_or_id))
      | Inr (Some b) \<Rightarrow>
          (case block_to_variant c b of
             Inl x \<Rightarrow> Inl x
           | Inr pretty_output \<Rightarrow>
               (case get_object pretty_output of
                  Inl x \<Rightarrow> Inl x
                | Inr fs \<Rightarrow> Inr (block_result b fs))))"

text \<open>
  \<^verbatim>\<open>read_write::push_block\<close>, lines 488 to 499. \<open>push_block_guarded\<close> is the statement
  inside the \<^verbatim>\<open>try\<close>, line 491: the block is copied to the heap and handed to the
  controller; the result is the exception that leaves it, if any. The function is
  declared to return \<^verbatim>\<open>push_block_results\<close> and has no \<^verbatim>\<open>return\<close> statement.
\<close>

definition push_block_guarded :: "collaborators \<Rightarrow> signed_block \<Rightarrow> exn option" where
  "push_block_guarded c params =
     (case make_shared_block c params of
        Some x \<Rightarrow> Some x
      | None \<Rightarrow> controller_push_block c params)"

definition push_block :: "collaborators \<Rightarrow> signed_block \<Rightarrow> node \<Rightarrow> unit ending \<times> node" where
  "push_block c params n =
     (case push_block_guarded c params of
        None \<Rightarrow> (No_return_statement, n)
      | Some x \<Rightarrow>
          if x = Interprocess_bad_alloc then (No_return_statement, raise_signal SIGUSR1 n)
          else (Thrown x, n))"

text \<open>
  \<^verbatim>\<open>read_write::push_transaction\<close>, lines 501 to 527. \<open>guarded\<close> is the body of the outer
  \<^verbatim>\<open>try\<close>; on \<^verbatim>\<open>bad_alloc\<close> the handler raises the signal and the function goes on to
  return \<open>id\<close> and \<open>pretty_output\<close> as they were default-constructed.
\<close>

definition push_transaction_guarded ::
    "collaborators \<Rightarrow> variant \<Rightarrow> node \<Rightarrow> (exn + push_transaction_results) \<times> node" where
  "push_transaction_guarded c params n =
     (case from_variant c params of
        Inl x \<Rightarrow>
          (Inl (EVT_RETHROW_EXCEPTIONS Packed_transaction_type_exception
                  ''Invalid packed transaction'' x), n)
      | Inr pretty_input \<Rightarrow>
          (case call_transaction_sync c pretty_input True n of
             (Inl x, n1) \<Rightarrow> (Inl x, n1)
           | (Inr trx_trace, n1) \<Rightarrow>
               (case to_variant_with_abi c trx_trace of
                  Inl x \<Rightarrow> (Inl x, n1)
                | Inr v \<Rightarrow>
                    (Inr \<lparr>transaction_id = trace_id trx_trace, processed = v\<rparr>, n1))))"

definition push_transaction ::
    "collaborators \<Rightarrow> variant \<Rightarrow> node \<Rightarrow> (exn + push_transaction_results) \<times> node" where
  "push_transaction c params n =
     (case push_transaction_guarded c params n of
        (Inr r, n1) \<Rightarrow> (Inr r, n1)
      | (Inl x, n1) \<Rightarrow>
          if x = Interprocess_bad_alloc
          then (Inr \<lparr>transaction_id = 0, processed = Null_variant\<rparr>, raise_signal SIGUSR1 n1)
          else (Inl x, n1))"

text \<open>
  \<^verbatim>\<open>read_write::push_transactions\<close>, lines 529 to 552. \<open>push_each\<close> is the \<^verbatim>\<open>for\<close> loop
  with its inner \<^verbatim>\<open>try\<close>: it carries the local vector \<open>result\<close>. The function is declared
  to return \<^verbatim>\<open>push_transactions_results\<close>; its body ends after the outer handlers, without
  a \<^verbatim>\<open>return\<close> statement, so the vector it built is second in the result here, for
  inspection only.
\<close>

fun push_each :: "collaborators \<Rightarrow> variant list \<Rightarrow> push_transaction_results list \<Rightarrow> node
    \<Rightarrow> exn option \<times> push_transaction_results list \<times> node" where
  "push_each c [] result n = (None, result, n)"
| "push_each c (item # items) result n =
     (case push_transaction c item n of
        (Inr r, n1) \<Rightarrow> push_each c items (result @ [r]) n1
      | (Inl x, n1) \<Rightarrow>
          if is_fc_exception x
          then push_each c items
                 (result @ [\<lparr>transaction_id = 0,
                     processed = Object_variant [(''error'', String_variant (to_detail_string x))]\<rparr>])
                 n1
          else (Some x, result, n1))"

definition push_transactions :: "collaborators \<Rightarrow> variant list \<Rightarrow> node
    \<Rightarrow> push_transaction_results list ending \<times> push_transaction_results list \<times> node" where
  "push_transactions c params n =
     (case FC_ASSERT (length params \<le> 1000) ''Attempt to push too many transactions at once'' of
        Some x \<Rightarrow> (Thrown x, [], n)
      | None \<Rightarrow>
          (case push_each c params [] n of
             (None, result, n1) \<Rightarrow> (No_return_statement, result, n1)
           | (Some x, result, n1) \<Rightarrow>
               if x = Interprocess_bad_alloc
               then (No_return_statement, result, raise_signal SIGUSR1 n1)
               else (Thrown x, result, n1)))"

text \<open>
  Example data for the API: blocks, collaborators that answer from small tables, and a
  node that has raised no signal and made no call.
\<close>

definition example_block :: "32 word \<Rightarrow> signed_block" where
  "example_block k =
     \<lparr>block_id = (ucast k * 4294967296, 4294967296 + 11, 0, 2748), block_num = k\<rparr>"

text \<open>
  Example parsers. An id is read from at most 64 hexadecimal digits, as the number they
  write; a height from decimal digits that write a number below \<open>2 ^ 64\<close>. So every
  string of decimal digits is read as an id too, and the id of a block, 64 digits that
  begin with its height, is not read as a height.
\<close>

definition hex_digit :: "char \<Rightarrow> nat option" where
  "hex_digit ch =
     (let k = (of_char ch :: nat)
      in if 48 \<le> k \<and> k \<le> 57 then Some (k - 48)
         else if 97 \<le> k \<and> k \<le> 102 then Some (k - 87)
         else if 65 \<le> k \<and> k \<le> 70 then Some (k - 55)
         else None)"

fun hex_value :: "nat \<Rightarrow> string \<Rightarrow> nat option" where
  "hex_value acc [] = Some acc"
| "hex_value acc (ch # s) =
     (case hex_digit ch of None \<Rightarrow> None | Some k \<Rightarrow> hex_value (16 * acc + k) s)"

fun decimal_value :: "nat \<Rightarrow> string \<Rightarrow> nat option" where
  "decimal_value acc [] = Some acc"
| "decimal_value acc (ch # s) =
     (if (48::nat) \<le> of_char ch \<and> of_char ch \<le> (57::nat)
      then decimal_value (10 * acc + (of_char ch - 48)) s else None)"

definition example_parse_block_id :: "string \<Rightarrow> exn + block_id_type" where
  "example_parse_block_id s =
     (if s = [] \<or> 64 < length s then Inl (Fc_exception Other_fc_exception ''bad cast'')
      else case hex_value 0 s of
             None \<Rightarrow> Inl (Fc_exception Other_fc_exception ''bad cast'')
           | Some v \<Rightarrow>
               Inr (of_nat (v div 2 ^ 192), of_nat (v div 2 ^ 128), of_nat (v div 2 ^ 64),
                    of_nat v))"

definition example_to_uint64 :: "string \<Rightarrow> exn + 64 word" where
  "example_to_uint64 s =
     (if s = [] then Inl (Fc_exception Other_fc_exception ''Couldn't parse uint64_t'')
      else case decimal_value 0 s of
             None \<Rightarrow> Inl (Fc_exception Other_fc_exception ''Couldn't parse uint64_t'')
           | Some v \<Rightarrow>
               if v < 2 ^ 64 then Inr (of_nat v)
               else Inl (Fc_exception Other_fc_exception ''Couldn't parse uint64_t''))"



definition example_api :: collaborators where
  "example_api = \<lparr>
     make_shared_block = (\<lambda>b. if block_num b = 3 then Some Std_bad_alloc else None),
     controller_push_block = (\<lambda>b.
        if block_num b = 0 then Some Interprocess_bad_alloc
        else if block_num b = 1 then Some (Fc_exception Other_fc_exception ''unlinkable block'')
        else if block_num b = 2 then Some Std_bad_alloc
        else None),
     fetch_block_by_id = (\<lambda>i.
        if i = block_id (example_block 5) then Some (example_block 5)
        else if i = block_id (example_block 7) then Some (example_block 7)
        else None),
     fetch_block_by_number = (\<lambda>k. if k = 5 \<or> k = 7 then Some (example_block k) else None),
     parse_block_id = example_parse_block_id,
     to_uint64 = example_to_uint64,
     block_to_variant = (\<lambda>b. Inr (Object_variant [(''producer'', String_variant ''evt'')])),
     from_variant = (\<lambda>v. case v of
        String_variant s \<Rightarrow> Inr [of_nat (length s)]
      | _ \<Rightarrow> Inl (Fc_exception Other_fc_exception ''bad cast'')),
     transaction_sync = (\<lambda>trx flag. case trx of
        [] \<Rightarrow> Inl (Fc_exception Other_fc_exception ''empty transaction'')
      | b # _ \<Rightarrow> Inr \<lparr>trace_id = ucast b, elapsed = 0\<rparr>),
     to_variant_with_abi = (\<lambda>t. Inr (String_variant ''trace''))\<rparr>"

definition quiet_node :: node where
  "quiet_node = \<lparr>signals = [], sync_calls = []\<rparr>"

section \<open>Theorems\<close>

subsection \<open>Recovery of the reversible block store\<close>

text \<open>
  C4. When the read-only open of the store succeeds, \<open>recover_reversible_blocks\<close> returns
  false and leaves the world as it was; when the open throws an exception that is not a
  \<^verbatim>\<open>std::runtime_error\<close>, that exception is thrown on unchanged and the world is as it
  was.
\<close>

theorem recover_clean_is_noop:
  "(open_database e w db_dir Read_only False = Inr d \<longrightarrow>
      recover_reversible_blocks e db_dir cache_size new_db_dir w = (Inr False, w))
   \<and> (open_database e w db_dir Read_only False = Inl x \<and> \<not> is_runtime_error x \<longrightarrow>
      recover_reversible_blocks e db_dir cache_size new_db_dir w = (Inl x, w))"
proof (intro conjI impI)
  assume "open_database e w db_dir Read_only False = Inr d"
  then show "recover_reversible_blocks e db_dir cache_size new_db_dir w = (Inr False, w)"
    by (simp add: recover_reversible_blocks_def)
next
  assume "open_database e w db_dir Read_only False = Inl x \<and> \<not> is_runtime_error x"
  then show "recover_reversible_blocks e db_dir cache_size new_db_dir w = (Inl x, w)"
    by (simp add: recover_reversible_blocks_def)
qed

lemma gap_free_prefix_nonempty: "gap_free_prefix (x # hs) \<noteq> []"
  by (cases hs) auto

lemma gap_free_prefix_shorter: "has_gap hs \<Longrightarrow> length (gap_free_prefix hs) < length hs"
  by (induction hs rule: has_gap.induct) auto

lemma has_gap_nonempty: "has_gap hs \<Longrightarrow> hs \<noteq> []"
  by auto

lemma row_fails_from_Suc:
  "row_fails_from e d end (r # rs) (Suc i)
     = row_fails_from e (d\<lparr>rows := rows d @ [stored e r]\<rparr>) (fst r) rs i"
  by (cases i) (simp_all add: row_fails_from_def)

lemma row_fails_from_0:
  "row_fails_from e d end (r # rs) 0 = (fst r \<noteq> end + 1 \<or> create_fault e d r \<noteq> None)"
  by (simp add: row_fails_from_def)

lemma copy_rows_spec:
  "copy_rows e rs d num end = (x, d', num', end') \<Longrightarrow>
   \<exists>k. k \<le> length rs
     \<and> d' = d\<lparr>rows := rows d @ map (stored e) (take k rs)\<rparr>
     \<and> num' = num + of_nat k
     \<and> (\<forall>i<k. \<not> row_fails_from e d end rs i)
     \<and> (if k < length rs then row_fails_from e d end rs k \<and> x \<noteq> None else x = None)"
proof (induction rs arbitrary: d num "end")
  case Nil
  then show ?case by simp
next
  case (Cons r rs)
  show ?case
  proof (cases "row_fails_from e d end (r # rs) 0")
    case True
    then consider "fst r \<noteq> end + 1" | y where "fst r = end + 1" "create_fault e d r = Some y"
      by (auto simp: row_fails_from_0)
    then have "d' = d \<and> num' = num \<and> x \<noteq> None"
    proof cases
      case 1
      with Cons.prems show ?thesis by (auto simp: FC_ASSERT_def)
    next
      case 2
      with Cons.prems have "(Some y, d, num, end) = (x, d', num', end')"
        by (simp add: FC_ASSERT_def create_def)
      then show ?thesis by auto
    qed
    with True show ?thesis
      by (intro exI [of _ 0]) simp
  next
    case False
    let ?d1 = "d\<lparr>rows := rows d @ [stored e r]\<rparr>"
    from False Cons.prems have "copy_rows e rs ?d1 (num + 1) (fst r) = (x, d', num', end')"
      by (simp add: row_fails_from_0 FC_ASSERT_def create_def)
    from Cons.IH [OF this] obtain k where k:
      "k \<le> length rs" "d' = ?d1\<lparr>rows := rows ?d1 @ map (stored e) (take k rs)\<rparr>"
      "num' = num + 1 + of_nat k" "\<forall>i<k. \<not> row_fails_from e ?d1 (fst r) rs i"
      "if k < length rs then row_fails_from e ?d1 (fst r) rs k \<and> x \<noteq> None else x = None"
      by blast
    have "\<forall>i<Suc k. \<not> row_fails_from e d end (r # rs) i"
    proof (intro allI impI)
      fix i assume "i < Suc k"
      then show "\<not> row_fails_from e d end (r # rs) i"
        using False k(4) by (cases i) (simp_all add: row_fails_from_Suc)
    qed
    with k show ?thesis
      by (intro exI [of _ "Suc k"]) (simp add: row_fails_from_Suc)
  qed
qed

lemma copy_rows_no_faults:
  "\<forall>d r. create_fault e d r = None \<Longrightarrow>
   copy_rows e rs d num end =
     (if has_gap (end # map fst rs)
      then Some (Fc_exception Assert_exception ''gap in reversible block database'') else None,
      d\<lparr>rows := rows d @ map (stored e) (take (length (gap_free_prefix (end # map fst rs)) - 1) rs)\<rparr>,
      num + of_nat (length (gap_free_prefix (end # map fst rs)) - 1),
      last (gap_free_prefix (end # map fst rs)))"
proof (induction rs arbitrary: d num "end")
  case Nil
  then show ?case by simp
next
  case (Cons r rs)
  obtain m where m: "length (gap_free_prefix (fst r # map fst rs)) = Suc m"
    using gap_free_prefix_nonempty [of "fst r" "map fst rs"]
    by (cases "gap_free_prefix (fst r # map fst rs)") auto
  have nf: "create_fault e d r = None"
    using Cons.prems by blast
  show ?case
  proof (cases "fst r = end + 1")
    case True
    have "copy_rows e (r # rs) d num end
            = copy_rows e rs (d\<lparr>rows := rows d @ [stored e r]\<rparr>) (num + 1) (fst r)"
      using True nf by (simp add: FC_ASSERT_def create_def)
    also note Cons.IH [OF Cons.prems]
    finally show ?thesis
      using True m gap_free_prefix_nonempty [of "fst r" "map fst rs"] by simp
  next
    case False
    then show ?thesis by (simp add: FC_ASSERT_def)
  qed
qed


lemma row_fails_from_first:
  "rs \<noteq> [] \<Longrightarrow> row_fails_from e d (fst (hd rs) - 1) rs i = row_fails e d rs i"
  by (cases rs; cases i) (simp_all add: row_fails_from_def row_fails_def)

lemma copy_all_spec:
  assumes "copy_all e old new = (x, d', num, start, end')"
  shows "\<exists>k. k \<le> length (by_num old)
     \<and> d' = new\<lparr>rows := rows new @ map (stored e) (take k (by_num old))\<rparr>
     \<and> num = of_nat k
     \<and> (\<forall>i<k. \<not> row_fails e new (by_num old) i)
     \<and> (if k < length (by_num old) then row_fails e new (by_num old) k \<and> x \<noteq> None
        else x = None)"
proof (cases "by_num old")
  case Nil
  with assms show ?thesis by (simp add: copy_all_def)
next
  case (Cons r rs)
  with assms have "copy_rows e (by_num old) new 0 (fst (hd (by_num old)) - 1) = (x, d', num, end')"
    by (simp add: copy_all_def split: prod.splits)
  moreover have ne: "by_num old \<noteq> []"
    using Cons by simp
  ultimately show ?thesis
    using copy_rows_spec [of e "by_num old" new 0 "fst (hd (by_num old)) - 1" x d' num end']
    unfolding row_fails_from_first [OF ne] by simp
qed

lemma copy_all_no_faults:
  assumes "\<forall>d r. create_fault e d r = None"
  shows "copy_all e old new =
     (if has_gap (map fst (by_num old))
      then Some (Fc_exception Assert_exception ''gap in reversible block database'') else None,
      new\<lparr>rows := rows new @ map (stored e)
             (take (length (gap_free_prefix (map fst (by_num old)))) (by_num old))\<rparr>,
      of_nat (length (gap_free_prefix (map fst (by_num old)))),
      (case by_num old of [] \<Rightarrow> 0 | r # _ \<Rightarrow> fst r),
      (case by_num old of [] \<Rightarrow> 0 | _ # _ \<Rightarrow> last (gap_free_prefix (map fst (by_num old)))))"
proof (cases "by_num old")
  case Nil
  then show ?thesis by (simp add: copy_all_def)
next
  case (Cons r rs)
  then show ?thesis
    using gap_free_prefix_nonempty [of "fst r" "map fst rs"]
    by (simp add: copy_all_def copy_rows_no_faults [OF assms])
qed

lemma recover_dirty_unfold:
  assumes "open_database e w db_dir Read_only False = Inl x" "is_runtime_error x"
    and "prepare e db_dir new_db_dir w = Inr (w2, reversible_dir, old, new)"
    and "copy_all e old new = (y, d, num, start, end')"
  shows "recover_reversible_blocks e db_dir cache_size new_db_dir w =
     (Inr True, w2\<lparr>dirs := (dirs w2)(reversible_dir \<mapsto> d),
                   ilog := ilog w2 @ [summary num start end']\<rparr>)"
  using assms by (simp add: recover_reversible_blocks_def)

text \<open>
  C10, as amended. When the first open throws a \<^verbatim>\<open>std::runtime_error\<close> and lines 349 to
  379 throw nothing, \<open>recover_reversible_blocks\<close> returns true whatever happens in the
  loop. The live store then holds, after the rows it had when opened, the first \<open>k\<close> rows
  of the backup in ascending block number, each stored again: none of these rows failed,
  and row \<open>k\<close>, if there is one, is the first that did. No other directory changes
  after the preparation.
\<close>

theorem recover_dirty_best_effort:
  assumes "open_database e w db_dir Read_only False = Inl x" "is_runtime_error x"
    and "prepare e db_dir new_db_dir w = Inr (w2, reversible_dir, old, new)"
  shows "\<exists>k w'. recover_reversible_blocks e db_dir cache_size new_db_dir w = (Inr True, w')
     \<and> k \<le> length (by_num old)
     \<and> dirs w' reversible_dir
         = Some (new\<lparr>rows := rows new @ map (stored e) (take k (by_num old))\<rparr>)
     \<and> (\<forall>i<k. \<not> row_fails e new (by_num old) i)
     \<and> (k < length (by_num old) \<longrightarrow> row_fails e new (by_num old) k)
     \<and> (\<forall>p. p \<noteq> reversible_dir \<longrightarrow> dirs w' p = dirs w2 p)"
proof -
  obtain y d num start end' where c: "copy_all e old new = (y, d, num, start, end')"
    by (cases "copy_all e old new") auto
  from copy_all_spec [OF c] obtain k where k: "k \<le> length (by_num old)"
    "d = new\<lparr>rows := rows new @ map (stored e) (take k (by_num old))\<rparr>"
    "\<forall>i<k. \<not> row_fails e new (by_num old) i"
    "if k < length (by_num old) then row_fails e new (by_num old) k \<and> y \<noteq> None else y = None"
    by blast
  let ?w' = "w2\<lparr>dirs := (dirs w2)(reversible_dir \<mapsto> d),
                 ilog := ilog w2 @ [summary num start end']\<rparr>"
  have "recover_reversible_blocks e db_dir cache_size new_db_dir w = (Inr True, ?w')"
    by (rule recover_dirty_unfold [OF assms c])
  moreover have "dirs ?w' reversible_dir
      = Some (new\<lparr>rows := rows new @ map (stored e) (take k (by_num old))\<rparr>)"
    using k(2) by simp
  moreover have "\<forall>p. p \<noteq> reversible_dir \<longrightarrow> dirs ?w' p = dirs w2 p"
    by simp
  moreover have "k < length (by_num old) \<longrightarrow> row_fails e new (by_num old) k"
    using k(4) by (simp split: if_splits)
  ultimately show ?thesis
    using k(1,3) by blast
qed

lemma backup_differs: "parent_path p @ [filename p @ ''-'' @ t] \<noteq> p"
proof (cases "p = []")
  case True
  then show ?thesis by simp
next
  case False
  then have "p = butlast p @ [last p]" by simp
  moreover have "last p @ ''-'' @ t \<noteq> last p" by simp
  ultimately show ?thesis
    unfolding parent_path_def filename_def using False
    by (metis append1_eq_conv)
qed

lemma in_place_fresh:
  assumes "prepare e db_dir None w = Inr (w2, reversible_dir, old, new)"
  shows "new = \<lparr>health = Clean, rows = []\<rparr>"
proof -
  from assms obtain backup_dir w1 where l: "locate e db_dir None w = Inr (backup_dir, reversible_dir, w1)"
    by (auto simp: prepare_def Let_def split: sum.splits prod.splits)
  then have "dirs w1 reversible_dir = None"
    using backup_differs [of reversible_dir "now w"]
    by (auto simp: locate_def Let_def FC_ASSERT_def rename_path_def exists_path_def
        split: sum.splits if_splits)
  with assms l show ?thesis
    by (auto simp: prepare_def Let_def create_directories_def exists_path_def open_database_def
        split: sum.splits)
qed

lemma gap_free_prefix_bound:
  "k \<le> length hs \<Longrightarrow> \<forall>i<k. 0 < i \<longrightarrow> hs ! i = hs ! (i - 1) + 1 \<Longrightarrow>
   k \<le> length (gap_free_prefix hs)"
proof (induction hs arbitrary: k rule: gap_free_prefix.induct)
  case (1 x y hs)
  show ?case
  proof (cases k)
    case 0
    then show ?thesis by simp
  next
    case (Suc k')
    show ?thesis
    proof (cases k')
      case 0
      with Suc show ?thesis by simp
    next
      case (Suc k'')
      with \<open>k = Suc k'\<close> "1.prems"(2) have step: "y = x + 1"
        by (auto dest: spec [of _ 1])
      have "\<forall>i<k'. 0 < i \<longrightarrow> (y # hs) ! i = (y # hs) ! (i - 1) + 1"
      proof (intro allI impI)
        fix i assume i: "i < k'" "0 < i"
        from "1.prems"(2)
        have "Suc i < k \<longrightarrow> 0 < Suc i \<longrightarrow> (x # y # hs) ! Suc i = (x # y # hs) ! (Suc i - 1) + 1"
          by blast
        with i(1) \<open>k = Suc k'\<close> have "(y # hs) ! i = (x # y # hs) ! i + 1"
          by simp
        moreover from i(2) obtain j where "i = Suc j"
          by (cases i) auto
        ultimately show "(y # hs) ! i = (y # hs) ! (i - 1) + 1"
          by simp
      qed
      moreover have "k' \<le> length (y # hs)"
        using \<open>k = Suc k'\<close> "1.prems"(1) by simp
      ultimately have "k' \<le> length (gap_free_prefix (y # hs))"
        using "1.IH" [OF step] by blast
      with \<open>k = Suc k'\<close> step show ?thesis by simp
    qed
  qed
qed simp_all

text \<open>
  C1, as amended. When the backup has a gap and lines 349 to 379 throw nothing, the call
  does not fail: an exception leaves the loop and is swallowed, the call returns true,
  and the live store holds, after the rows it had when opened, the first \<open>k\<close> rows of the
  backup, \<open>k\<close> being at most the number of rows before the first gap, which are not all
  the rows. When no creation of a row throws, the exception is the assertion ``gap in
  reversible block database'' and \<open>k\<close> is the number of rows before the first gap, at
  least one. Without \<open>new_db_dir\<close> the live store was empty when opened.
\<close>

theorem recover_gap_keeps_prefix:
  assumes "open_database e w db_dir Read_only False = Inl x" "is_runtime_error x"
    and "prepare e db_dir new_db_dir w = Inr (w2, reversible_dir, old, new)"
    and "has_gap (map fst (by_num old))"
  shows "\<exists>k w'. recover_reversible_blocks e db_dir cache_size new_db_dir w = (Inr True, w')
     \<and> fst (copy_all e old new) \<noteq> None
     \<and> k \<le> length (gap_free_prefix (map fst (by_num old)))
     \<and> length (gap_free_prefix (map fst (by_num old))) < length (by_num old)
     \<and> dirs w' reversible_dir
         = Some (new\<lparr>rows := rows new @ map (stored e) (take k (by_num old))\<rparr>)
     \<and> ((\<forall>d r. create_fault e d r = None) \<longrightarrow>
          fst (copy_all e old new)
            = Some (Fc_exception Assert_exception ''gap in reversible block database'')
          \<and> k = length (gap_free_prefix (map fst (by_num old))) \<and> 0 < k)
     \<and> (new_db_dir = None \<longrightarrow> rows new = [])"
proof -
  let ?hs = "map fst (by_num old)"
  let ?m = "length (gap_free_prefix ?hs)"
  have "?hs \<noteq> []" using assms(4) by auto
  then have pos: "0 < ?m"
    using gap_free_prefix_nonempty by (cases ?hs) auto
  have short: "?m < length (by_num old)"
    using gap_free_prefix_shorter [OF assms(4)] by simp
  have fresh: "new_db_dir = None \<longrightarrow> rows new = []"
  proof
    assume "new_db_dir = None"
    with assms(3) have "prepare e db_dir None w = Inr (w2, reversible_dir, old, new)"
      by simp
    from in_place_fresh [OF this] show "rows new = []"
      by simp
  qed
  show ?thesis
  proof (cases "\<forall>d r. create_fault e d r = None")
    case True
    note c = copy_all_no_faults [OF True, of old new]
    show ?thesis
      using recover_dirty_unfold [OF assms(1,2,3) c] c assms(4) pos short fresh True
      by (intro exI [of _ ?m]) simp
  next
    case False
    obtain y d num start end' where c: "copy_all e old new = (y, d, num, start, end')"
      by (cases "copy_all e old new") auto
    from copy_all_spec [OF c] obtain k where k: "k \<le> length (by_num old)"
      "d = new\<lparr>rows := rows new @ map (stored e) (take k (by_num old))\<rparr>"
      "\<forall>i<k. \<not> row_fails e new (by_num old) i"
      "if k < length (by_num old) then row_fails e new (by_num old) k \<and> y \<noteq> None else y = None"
      by blast
    have "\<forall>i<k. 0 < i \<longrightarrow> ?hs ! i = ?hs ! (i - 1) + 1"
      using k(1,3) by (auto simp: row_fails_def)
    with k(1) have le: "k \<le> ?m"
      using gap_free_prefix_bound [of k ?hs] by simp
    with short k(4) have "y \<noteq> None"
      by (simp split: if_splits)
    with c have swallowed: "fst (copy_all e old new) \<noteq> None"
      by simp
    let ?w' = "w2\<lparr>dirs := (dirs w2)(reversible_dir \<mapsto> d),
                   ilog := ilog w2 @ [summary num start end']\<rparr>"
    have returns: "recover_reversible_blocks e db_dir cache_size new_db_dir w = (Inr True, ?w')"
      by (rule recover_dirty_unfold [OF assms(1,2,3) c])
    have kept: "dirs ?w' reversible_dir
        = Some (new\<lparr>rows := rows new @ map (stored e) (take k (by_num old))\<rparr>)"
      using k(2) by simp
    have vacuous: "(\<forall>d r. create_fault e d r = None) \<longrightarrow>
          fst (copy_all e old new)
            = Some (Fc_exception Assert_exception ''gap in reversible block database'')
          \<and> k = ?m \<and> 0 < k"
      using False by blast
    from returns swallowed le short kept vacuous fresh show ?thesis
      by blast
  qed
qed

text \<open>
  C8. Without \<open>new_db_dir\<close>, when the store is dirty and a directory already has the name
  of the backup (the name of the store directory, \<^verbatim>\<open>-\<close>, the current time), the call
  throws the assertion of line 366 and the world is as it was: nothing is renamed,
  created or written.
\<close>

theorem backup_name_taken_fails:
  assumes "open_database e w db_dir Read_only False = Inl x" "is_runtime_error x"
    and "canonical e db_dir = Inr c"
    and "reversible_dir = (if filename c = ''.'' then parent_path c else c)"
    and "filename reversible_dir \<noteq> ''.''"
    and "exists_path w (parent_path reversible_dir @ [filename reversible_dir @ ''-'' @ now w])"
  shows "recover_reversible_blocks e db_dir cache_size None w =
     (Inl (Fc_exception Assert_exception
        ''Cannot move existing reversible directory to already existing directory''), w)"
  using assms
  by (simp add: recover_reversible_blocks_def prepare_def locate_def FC_ASSERT_def Let_def)

lemmas recover_defs = recover_reversible_blocks_def open_database_def prepare_def locate_def
  filename_def parent_path_def FC_ASSERT_def exists_path_def rename_path_def
  create_directories_def copy_all_def by_num_def create_def stored_def summary_def Let_def

text \<open>
  C1 as stated fails: with the heights 5 and 7 in a dirty store the call returns true and
  the live store holds the row of height 5.
\<close>

theorem recover_gap_counterexample:
  "has_gap (map fst (by_num \<lparr>health = Dirty, rows = [(5, [1]), (7, [3])]\<rparr>))
   \<and> fst (recover_reversible_blocks example_env example_dir 1024 None gap_world) = Inr True
   \<and> dirs (snd (recover_reversible_blocks example_env example_dir 1024 None gap_world)) example_dir
       = Some \<lparr>health = Clean, rows = [(5, [1])]\<rparr>"
  by (simp add: example_env_def example_dir_def world_with_def gap_world_def recover_defs)

text \<open>
  C10 as stated fails: the store is dirty, the backup name is taken, and the call throws
  instead of returning true.
\<close>

theorem recover_taken_counterexample:
  "open_database example_env taken_world example_dir Read_only False
     = Inl (Std_runtime_error ''database dirty flag set'')
   \<and> fst (recover_reversible_blocks example_env example_dir 1024 None taken_world)
     = Inl (Fc_exception Assert_exception
        ''Cannot move existing reversible directory to already existing directory'')"
  by (simp add: example_env_def example_dir_def world_with_def taken_world_def example_backup_dir_def recover_defs)

text \<open>Witness for C8: the world in which the backup name is taken.\<close>

theorem backup_name_taken_fails_witness:
  "exists_path taken_world example_backup_dir
   \<and> recover_reversible_blocks example_env example_dir 1024 None taken_world =
     (Inl (Fc_exception Assert_exception
        ''Cannot move existing reversible directory to already existing directory''), taken_world)"
  using backup_name_taken_fails [of example_env taken_world example_dir
      "Std_runtime_error ''database dirty flag set''" example_dir example_dir 1024]
  by (simp add: example_env_def example_dir_def world_with_def taken_world_def example_backup_dir_def open_database_def filename_def parent_path_def exists_path_def)

text \<open>Witness for C4: a clean store, and a store whose open throws another exception.\<close>

theorem recover_clean_is_noop_witness:
  "recover_reversible_blocks example_env example_dir 1024 None clean_world = (Inr False, clean_world)
   \<and> recover_reversible_blocks example_env example_dir 1024 None broken_world
       = (Inl (Other_exception ''permission denied''), broken_world)"
  using recover_clean_is_noop [of example_env clean_world example_dir
      "\<lparr>health = Clean, rows = [(5, [1]), (6, [2]), (7, [3])]\<rparr>" 1024 None
      "Other_exception ''permission denied''"]
    recover_clean_is_noop [of example_env broken_world example_dir
      "\<lparr>health = Clean, rows = []\<rparr>" 1024 None
      "Other_exception ''permission denied''"]
  by (simp add: example_env_def example_dir_def world_with_def clean_world_def broken_world_def open_database_def)


text \<open>
  Witness for C1 as amended: the heights 5 and 7, first when nothing else fails, then when
  the row of height 5 cannot be decoded.
\<close>

theorem recover_gap_keeps_prefix_witness:
  "has_gap (map fst (by_num \<lparr>health = Dirty, rows = [(5, [1]), (7, [3])]\<rparr>))
   \<and> fst (recover_reversible_blocks example_env example_dir 1024 None gap_world) = Inr True
   \<and> dirs (snd (recover_reversible_blocks example_env example_dir 1024 None gap_world)) example_dir
       = Some \<lparr>health = Clean, rows = [(5, [1])]\<rparr>
   \<and> fst (recover_reversible_blocks decode_fault_env example_dir 1024 None fault_gap_world)
       = Inr True
   \<and> dirs (snd (recover_reversible_blocks decode_fault_env example_dir 1024 None fault_gap_world))
         example_dir
       = Some \<lparr>health = Clean, rows = []\<rparr>"
proof -
  let ?old = "\<lparr>health = Dirty, rows = [(5, [1]), (7, [3])]\<rparr> :: database"
  let ?old' = "\<lparr>health = Dirty, rows = [(5, [255]), (7, [3])]\<rparr> :: database"
  let ?new = "\<lparr>health = Clean, rows = []\<rparr> :: database"
  have probe: "open_database example_env gap_world example_dir Read_only False
      = Inl (Std_runtime_error ''database dirty flag set'')"
    by (simp add: example_env_def example_dir_def world_with_def gap_world_def open_database_def)
  have "\<exists>w2. prepare example_env example_dir None gap_world = Inr (w2, example_dir, ?old, ?new)"
    by (simp add: example_env_def example_dir_def world_with_def gap_world_def recover_defs)
  then obtain w2 where
    p: "prepare example_env example_dir None gap_world = Inr (w2, example_dir, ?old, ?new)" ..
  have gap: "has_gap (map fst (by_num ?old))"
    by (simp add: by_num_def)
  have probe': "open_database decode_fault_env fault_gap_world example_dir Read_only False
      = Inl (Std_runtime_error ''database dirty flag set'')"
    by (simp add: decode_fault_env_def example_env_def example_dir_def world_with_def
        fault_gap_world_def open_database_def)
  have "\<exists>w2. prepare decode_fault_env example_dir None fault_gap_world
      = Inr (w2, example_dir, ?old', ?new)"
    by (simp add: decode_fault_env_def example_env_def example_dir_def world_with_def
        fault_gap_world_def recover_defs)
  then obtain w2' where
    p': "prepare decode_fault_env example_dir None fault_gap_world
      = Inr (w2', example_dir, ?old', ?new)" ..
  have gap': "has_gap (map fst (by_num ?old'))"
    by (simp add: by_num_def)
  have first: "fst (recover_reversible_blocks example_env example_dir 1024 None gap_world) = Inr True
     \<and> dirs (snd (recover_reversible_blocks example_env example_dir 1024 None gap_world)) example_dir
       = Some \<lparr>health = Clean, rows = [(5, [1])]\<rparr>"
    using recover_gap_keeps_prefix [OF probe _ p gap, of 1024]
    by (auto simp: by_num_def stored_def example_env_def)
  from recover_gap_keeps_prefix [OF probe' _ p' gap', of 1024]
  obtain w' k where k:
    "recover_reversible_blocks decode_fault_env example_dir 1024 None fault_gap_world = (Inr True, w')"
    "fst (copy_all decode_fault_env ?old' ?new) \<noteq> None"
    "dirs w' example_dir
      = Some (?new\<lparr>rows := rows ?new @ map (stored decode_fault_env) (take k (by_num ?old'))\<rparr>)"
    by auto
  have "copy_all decode_fault_env ?old' ?new
      = (Some (Fc_exception Other_fc_exception ''malformed block''), ?new, 0, 5, 4)"
    by (simp add: copy_all_def by_num_def FC_ASSERT_def create_def decode_fault_env_def
        example_env_def)
  with recover_dirty_unfold [OF probe' _ p' this, of 1024] k(1)
  have "dirs w' example_dir = Some ?new"
    by simp
  with k(1) first gap show ?thesis
    by simp
qed

text \<open>
  Witness for C10 as amended: the rows of heights 7, 5 and 6 in creation order are all
  copied, in ascending order.
\<close>

theorem recover_dirty_best_effort_witness:
  "fst (recover_reversible_blocks example_env example_dir 1024 None dirty_world) = Inr True
   \<and> dirs (snd (recover_reversible_blocks example_env example_dir 1024 None dirty_world)) example_dir
       = Some \<lparr>health = Clean, rows = [(5, [1]), (6, [2]), (7, [3])]\<rparr>"
proof -
  let ?old = "\<lparr>health = Dirty, rows = [(7, [3]), (5, [1]), (6, [2])]\<rparr> :: database"
  let ?new = "\<lparr>health = Clean, rows = []\<rparr> :: database"
  have probe: "open_database example_env dirty_world example_dir Read_only False
      = Inl (Std_runtime_error ''database dirty flag set'')"
    by (simp add: example_env_def example_dir_def world_with_def dirty_world_def open_database_def)
  have "\<exists>w2. prepare example_env example_dir None dirty_world = Inr (w2, example_dir, ?old, ?new)"
    by (simp add: example_env_def example_dir_def world_with_def dirty_world_def recover_defs)
  then obtain w2 where
    p: "prepare example_env example_dir None dirty_world = Inr (w2, example_dir, ?old, ?new)" ..
  have sorted: "by_num ?old = [(5, [1]), (6, [2]), (7, [3])]"
    by (simp add: by_num_def)
  have ok: "\<not> row_fails example_env ?new (by_num ?old) i" if "i < 3" for i
  proof -
    from that consider "i = 0" | "i = 1" | "i = 2" by linarith
    then show ?thesis
      by cases (simp_all add: sorted row_fails_def example_env_def)
  qed
  from recover_dirty_best_effort [OF probe _ p, of 1024]
  obtain k w' where k:
    "recover_reversible_blocks example_env example_dir 1024 None dirty_world = (Inr True, w')"
    "k \<le> length (by_num ?old)"
    "dirs w' example_dir
       = Some (?new\<lparr>rows := rows ?new @ map (stored example_env) (take k (by_num ?old))\<rparr>)"
    "k < length (by_num ?old) \<longrightarrow> row_fails example_env ?new (by_num ?old) k"
    by auto
  have "\<not> k < 3"
    using k(4) ok [of k] by (auto simp: sorted)
  then have "k = 3"
    using k(2) by (simp add: sorted)
  with k(1,3) show ?thesis
    by (simp add: sorted stored_def example_env_def)
qed

subsection \<open>The submission pipeline\<close>

text \<open>
  C2, as amended. When the statement of line 491 throws \<^verbatim>\<open>boost::interprocess::bad_alloc\<close>,
  \<open>push_block\<close> raises \<^verbatim>\<open>SIGUSR1\<close> once (the signals raised are those raised before,
  followed by this one) and throws nothing. Any other exception is thrown on as it is and
  no signal is raised; \<^verbatim>\<open>std::bad_alloc\<close> is one of these.
\<close>

theorem push_block_memory_exhaustion:
  "(push_block_guarded c params = Some Interprocess_bad_alloc \<longrightarrow>
      signals (snd (push_block c params n)) = signals n @ [SIGUSR1]
      \<and> count_list (signals (snd (push_block c params n))) SIGUSR1
          = count_list (signals n) SIGUSR1 + 1
      \<and> (\<forall>y. fst (push_block c params n) \<noteq> Thrown y))
   \<and> (push_block_guarded c params = Some x \<and> x \<noteq> Interprocess_bad_alloc \<longrightarrow>
      push_block c params n = (Thrown x, n))
   \<and> (push_block_guarded c params = Some Std_bad_alloc \<longrightarrow>
      push_block c params n = (Thrown Std_bad_alloc, n))"
proof (intro conjI impI)
  assume oom: "push_block_guarded c params = Some Interprocess_bad_alloc"
  then have "push_block c params n = (No_return_statement, raise_signal SIGUSR1 n)"
    by (simp add: push_block_def)
  then show "signals (snd (push_block c params n)) = signals n @ [SIGUSR1]"
    and "count_list (signals (snd (push_block c params n))) SIGUSR1
          = count_list (signals n) SIGUSR1 + 1"
    and "\<forall>y. fst (push_block c params n) \<noteq> Thrown y"
    by (simp_all add: raise_signal_def)
next
  assume "push_block_guarded c params = Some x \<and> x \<noteq> Interprocess_bad_alloc"
  then show "push_block c params n = (Thrown x, n)"
    by (simp add: push_block_def)
next
  assume "push_block_guarded c params = Some Std_bad_alloc"
  then show "push_block c params n = (Thrown Std_bad_alloc, n)"
    by (simp add: push_block_def)
qed

text \<open>
  C2 as stated fails: the heap is exhausted, in the controller or when the block is
  copied at line 491, and \<open>push_block\<close> throws \<^verbatim>\<open>std::bad_alloc\<close> to its caller without
  raising a signal.
\<close>

theorem push_block_std_bad_alloc_counterexample:
  "controller_push_block example_api (example_block 2) = Some Std_bad_alloc
   \<and> is_memory_exhaustion Std_bad_alloc
   \<and> push_block example_api (example_block 2) quiet_node = (Thrown Std_bad_alloc, quiet_node)
   \<and> signals quiet_node = []
   \<and> make_shared_block example_api (example_block 3) = Some Std_bad_alloc
   \<and> push_block example_api (example_block 3) quiet_node = (Thrown Std_bad_alloc, quiet_node)"
  by (simp add: push_block_def push_block_guarded_def is_memory_exhaustion_def
      example_api_def example_block_def quiet_node_def)

text \<open>
  Witness for C2 as amended: a block whose application exhausts the shared memory, one
  that is rejected, and one whose application exhausts the heap.
\<close>

theorem push_block_memory_exhaustion_witness:
  "signals (snd (push_block example_api (example_block 0) quiet_node)) = [SIGUSR1]
   \<and> fst (push_block example_api (example_block 0) quiet_node) = No_return_statement
   \<and> push_block example_api (example_block 1) quiet_node
     = (Thrown (Fc_exception Other_fc_exception ''unlinkable block''), quiet_node)
   \<and> push_block example_api (example_block 2) quiet_node = (Thrown Std_bad_alloc, quiet_node)"
  using push_block_memory_exhaustion [of example_api "example_block 0" quiet_node
      "Fc_exception Other_fc_exception ''unlinkable block''"]
    push_block_memory_exhaustion [of example_api "example_block 1" quiet_node
      "Fc_exception Other_fc_exception ''unlinkable block''"]
    push_block_memory_exhaustion [of example_api "example_block 2" quiet_node
      "Fc_exception Other_fc_exception ''unlinkable block''"]
  by (simp add: example_api_def example_block_def quiet_node_def push_block_def
      push_block_guarded_def)

text \<open>
  C3, at a batch of three items whose second is malformed: the loop builds three results
  in order, the second with the null id and the error detail, and the call ends at the
  closing brace without returning them.
\<close>

theorem push_transactions_returns_nothing:
  "push_transactions example_api
      [String_variant ''a'', Null_variant, String_variant ''abc''] quiet_node
   = (No_return_statement,
      [\<lparr>transaction_id = 1, processed = String_variant ''trace''\<rparr>,
       \<lparr>transaction_id = 0, processed =
          Object_variant [(''error'', String_variant ''Invalid packed transaction'')]\<rparr>,
       \<lparr>transaction_id = 3, processed = String_variant ''trace''\<rparr>],
      \<lparr>signals = [], sync_calls = [([1], True), ([3], True)]\<rparr>)"
  by (simp add: push_transactions_def FC_ASSERT_def push_transaction_def
      push_transaction_guarded_def call_transaction_sync_def EVT_RETHROW_EXCEPTIONS_def example_api_def example_block_def quiet_node_def)

text \<open>A batch of more than 1000 items is rejected, and no item is processed.\<close>

lemma push_transactions_too_many:
  "1000 < length params \<Longrightarrow>
   push_transactions c params n
     = (Thrown (Fc_exception Assert_exception ''Attempt to push too many transactions at once''),
        [], n)"
  by (simp add: push_transactions_def FC_ASSERT_def)

text \<open>No call of \<open>push_transactions\<close> returns a value, whatever the batch.\<close>

lemma push_transactions_never_returns:
  "fst (push_transactions c params n) \<noteq> Returned r"
  by (simp add: push_transactions_def FC_ASSERT_def split: prod.splits option.splits)

subsection \<open>The genesis timestamp\<close>

text \<open>
  C5, at one millisecond past a boundary with a block interval of 500 ms: the timestamp
  moves forward by ten times the 499 ms to the next boundary, and its millisecond offset
  from the epoch is not a multiple of the interval.
\<close>

theorem snap_now_misses_boundary:
  "snap_now 500 1527811200001000 = 1527811204991000
   \<and> (snap_now 500 1527811200001000 sdiv 1000) smod 500 = 491
   \<and> genesis_timestamp_option 500 from_iso_string 1527811200001000 ''now''
       = Inr 1527811204991000
   \<and> initial_timestamp 1527811204991000 from_file = 1527811204991000"
  by (simp add: snap_now_def genesis_timestamp_option_def strcasecmp_eq_def tolower_def
      initial_timestamp_def signed_divide_int_def signed_modulo_int_def Let_def)

text \<open>
  One millisecond after the epoch the next boundary is at \<open>b\<close> milliseconds; for no interval
  of two milliseconds or more is that the timestamp computed.
\<close>

lemma snap_now_not_next_boundary:
  assumes "2 \<le> b"
  shows "snap_now b 1000 = 1000 + (b - 1) * 10000" and "snap_now b 1000 \<noteq> b * 1000"
proof -
  have "(1::int) smod b = 1"
    using assms by (simp add: signed_modulo_int_def)
  then show "snap_now b 1000 = 1000 + (b - 1) * 10000"
    using assms by (simp add: snap_now_def signed_divide_int_def Let_def)
  then show "snap_now b 1000 \<noteq> b * 1000"
    using assms by simp
qed

subsection \<open>The life cycle\<close>

lemma all_signals_nonempty: "all_signals \<noteq> {}"
  by (simp add: all_signals_def)

lemma invariant_initial: "lifecycle_invariant initial_plugin"
  by (simp add: lifecycle_invariant_def initial_plugin_def)

lemma invariant_step: "lifecycle_invariant p \<Longrightarrow> lifecycle_invariant (step p ev)"
proof (cases ev)
  case (Configure options_fault construct)
  assume "lifecycle_invariant p"
  then show ?thesis
    using Configure all_signals_nonempty
    by (auto simp: lifecycle_invariant_def plugin_initialize_def split: option.splits sum.splits)
next
  case (Start fault)
  assume "lifecycle_invariant p"
  then show ?thesis
    using Start all_signals_nonempty
    by (auto simp: lifecycle_invariant_def plugin_startup_def split: option.splits sum.splits)
next
  case Stop
  assume "lifecycle_invariant p"
  then show ?thesis
    using Stop by (auto simp: lifecycle_invariant_def plugin_shutdown_def)
qed

lemma invariant_run: "lifecycle_invariant (run evs)"
proof (induction evs rule: rev_induct)
  case Nil
  show ?case by (simp add: run_def invariant_initial)
next
  case (snoc ev evs)
  then show ?case by (simp add: run_def invariant_step)
qed

text \<open>
  C6, as amended. In every state the life cycle reaches, the controller exists if and only
  if the state is Configured, Starting or Started, and connections exist if and only if
  the controller does.
\<close>

theorem core_exists_from_configure_to_stop:
  "(chain (my (run evs)) \<noteq> None)
      = (state (run evs) = Configured \<or> state (run evs) = Starting \<or> state (run evs) = Started)
   \<and> (connections (my (run evs)) \<noteq> {}) = (chain (my (run evs)) \<noteq> None)"
  using invariant_run [of evs] all_signals_nonempty
  unfolding lifecycle_invariant_def by auto

text \<open>
  C6 as stated fails: after a successful configure the state is Configured, neither
  Starting nor Started, and the controller exists.
\<close>

theorem core_exists_when_configured_counterexample:
  "state (run [Configure None (Inr \<lparr>started_up = False\<rparr>)]) = Configured
   \<and> chain (my (run [Configure None (Inr \<lparr>started_up = False\<rparr>)])) = Some \<lparr>started_up = False\<rparr>"
  by (simp add: run_def initial_plugin_def plugin_initialize_def)

text \<open>Witness for C6 as amended: configure, then start.\<close>

theorem core_exists_from_configure_to_stop_witness:
  "state (run [Configure None (Inr \<lparr>started_up = False\<rparr>), Start None]) = Started
   \<and> chain (my (run [Configure None (Inr \<lparr>started_up = False\<rparr>), Start None])) \<noteq> None
   \<and> connections (my (run [Configure None (Inr \<lparr>started_up = False\<rparr>), Start None])) \<noteq> {}"
  using core_exists_from_configure_to_stop [of "[Configure None (Inr \<lparr>started_up = False\<rparr>), Start None]"]
  by (simp add: run_def initial_plugin_def plugin_initialize_def plugin_startup_def)

subsection \<open>Block lookup\<close>


text \<open>
  A rendering of the block that is not an object makes line 485 throw, and an exception
  of the rendering itself is thrown on.
\<close>

lemma get_block_rendering_faults:
  assumes "lookup_block c s = Inr (Some b)"
  shows "block_to_variant c b = Inl x \<Longrightarrow> get_block c s = Inl x"
    and "block_to_variant c b = Inr (String_variant t) \<Longrightarrow>
      get_block c s = Inl (Fc_exception Bad_cast_exception ''Invalid cast to Object'')"
  using assms by (simp_all add: get_block_def get_object_def)





subsection \<open>Transaction submission\<close>

text \<open>
  C9, as amended. \<open>accept_transaction\<close> calls the transaction-sync method with the flag
  false and returns what the method returns. \<open>push_transaction\<close>, once the transaction
  is decoded, calls the method with the flag true, and returns the id of the trace and
  the variant made of the trace.
\<close>

theorem transaction_sync_flags:
  "accept_transaction c trx n
     = (transaction_sync c trx False, n\<lparr>sync_calls := sync_calls n @ [(trx, False)]\<rparr>)
   \<and> (from_variant c params = Inr trx \<longrightarrow>
        sync_calls (snd (push_transaction c params n)) = sync_calls n @ [(trx, True)])
   \<and> (from_variant c params = Inr trx \<and> transaction_sync c trx True = Inr t
        \<and> to_variant_with_abi c t = Inr v \<longrightarrow>
        fst (push_transaction c params n) = Inr \<lparr>transaction_id = trace_id t, processed = v\<rparr>)"
  by (simp add: accept_transaction_def call_transaction_sync_def push_transaction_def
      push_transaction_guarded_def raise_signal_def split: sum.splits)

text \<open>Witness for C9 as amended.\<close>

theorem transaction_sync_flags_witness:
  "accept_transaction example_api [3] quiet_node
     = (Inr \<lparr>trace_id = 3, elapsed = 0\<rparr>, \<lparr>signals = [], sync_calls = [([3], False)]\<rparr>)
   \<and> sync_calls (snd (push_transaction example_api (String_variant ''abc'') quiet_node))
     = [([3], True)]
   \<and> fst (push_transaction example_api (String_variant ''abc'') quiet_node)
     = Inr \<lparr>transaction_id = 3, processed = String_variant ''trace''\<rparr>"
  using transaction_sync_flags [of example_api "[3]" quiet_node "String_variant ''abc''"
      "\<lparr>trace_id = 3, elapsed = 0\<rparr>" "String_variant ''trace''"]
  by (simp add: example_api_def example_block_def quiet_node_def)

text \<open>
  C9 as stated fails: \<open>push_transaction\<close> gives the flag true to the method, and returns
  an id and a variant, not the trace.
\<close>

theorem push_transaction_flag_counterexample:
  "sync_calls (snd (push_transaction example_api (String_variant ''abc'') quiet_node))
     = [([3], True)]
   \<and> transaction_sync example_api [3] True = Inr \<lparr>trace_id = 3, elapsed = 0\<rparr>
   \<and> fst (push_transaction example_api (String_variant ''abc'') quiet_node)
     = Inr \<lparr>transaction_id = 3, processed = String_variant ''trace''\<rparr>"
  by (simp add: push_transaction_def push_transaction_guarded_def call_transaction_sync_def example_api_def example_block_def quiet_node_def)

text \<open>The loop of \<open>push_transactions\<close>, when no exception leaves it, adds one result per item.\<close>

lemma push_each_length:
  "push_each c items result n = (None, result', n') \<Longrightarrow>
   length result' = length result + length items"
proof (induction items arbitrary: result n)
  case Nil
  then show ?case by simp
next
  case (Cons item items)
  then show ?case
    by (auto split: prod.splits sum.splits if_splits)
qed

end
